theory Spec2Isabelle
  imports Complex_Main "HOL-Library.AList"
begin

section \<open>Data model: the tables of the store\<close>

text \<open>
  The backend is a set of PostgreSQL tables and PL/pgSQL functions. A table is a list of
  rows, a nullable column is an \<open>option\<close> (\<open>None\<close> is SQL's NULL), \<open>uuid\<close> and
  \<open>text\<close> values are strings. Columns of type \<open>float\<close> are modelled by the reals: the
  arithmetic of the functions below is read as exact arithmetic, not as IEEE rounding.
\<close>

type_synonym uuid = string

record pharmacy_row =
  ph_id :: uuid
  ph_name :: string
  ph_address :: string
  ph_latitude :: "real option"
  ph_longitude :: "real option"
  ph_rating :: "real option"
  ph_review_count :: "int option"
  ph_verified :: "bool option"
  ph_verification_status :: "string option"

record medicine_row =
  m_id :: uuid
  m_pharmacy_id :: "uuid option"
  m_name :: string
  m_selling_price :: "real option"
  m_stock :: "int option"

record booking_row =
  b_id :: string
  b_is_rated :: "bool option"

text \<open>The date part of a \<open>timestamptz\<close>, all that \<open>to_char(now(), 'YYMMDD')\<close> reads.\<close>

record timestamp =
  ts_year :: nat
  ts_month :: nat
  ts_day :: nat

record sale_row =
  s_id :: uuid
  s_pharmacy_id :: "uuid option"
  s_invoice_number :: string
  s_customer_name :: string
  s_customer_phone :: string
  s_doctor_name :: "string option"
  s_payment_method :: string
  s_subtotal :: real
  s_discount :: real
  s_taxable_amount :: real
  s_tax_amount :: real
  s_total :: real
  s_created_at :: timestamp
  s_status :: string

record sale_item_row =
  si_sale_id :: uuid
  si_medicine_id :: uuid
  si_name :: string
  si_batch_number :: "string option"
  si_expiry_date :: "string option"
  si_quantity :: int
  si_price :: real
  si_total :: real
  si_gst_percentage :: "real option"

record review_row =
  r_booking_id :: string
  r_pharmacy_id :: uuid
  r_user_id :: uuid
  r_rating :: int
  r_comment :: string

text \<open>
  The database: its tables, the ids of \<open>auth.users\<close> (the target of a foreign key of
  \<open>reviews\<close>), and the sequence \<open>invoice_seq\<close>, held as the value the next
  \<open>nextval\<close> returns (1001 on a fresh sequence).
\<close>

record db =
  pharmacies :: "pharmacy_row list"
  medicines :: "medicine_row list"
  bookings :: "booking_row list"
  sales :: "sale_row list"
  sale_items :: "sale_item_row list"
  reviews :: "review_row list"
  users :: "uuid list"
  invoice_seq :: int

section \<open>Distance between two coordinates\<close>

definition radians :: "real \<Rightarrow> real" where
  "radians x = x * pi / 180"

text \<open>
  The distance expression shared by \<open>get_nearby_pharmacies\<close> and
  \<open>get_medicine_availability\<close>: the spherical law of cosines on a sphere of radius
  6371 km, the argument of \<open>acos\<close> clamped to [-1, 1] by \<open>least\<close> and \<open>greatest\<close>.
\<close>

definition distance_km :: "real \<Rightarrow> real \<Rightarrow> real \<Rightarrow> real \<Rightarrow> real" where
  "distance_km user_lat user_lng latitude longitude =
     6371 * arccos (min 1 (max (- 1)
       (cos (radians user_lat) * cos (radians latitude) *
        cos (radians longitude - radians user_lng) +
        sin (radians user_lat) * sin (radians latitude))))"

text \<open>With a NULL operand the SQL expression is NULL.\<close>

definition distance_sql :: "real \<Rightarrow> real \<Rightarrow> real option \<Rightarrow> real option \<Rightarrow> real option" where
  "distance_sql user_lat user_lng latitude longitude =
     (case latitude of
        None \<Rightarrow> None
      | Some la \<Rightarrow>
          (case longitude of
             None \<Rightarrow> None
           | Some lo \<Rightarrow> Some (distance_km user_lat user_lng la lo)))"

section \<open>Names up to case\<close>

definition lower_char :: "char \<Rightarrow> char" where
  "lower_char c =
     (case map_of (zip ''ABCDEFGHIJKLMNOPQRSTUVWXYZ'' ''abcdefghijklmnopqrstuvwxyz'') c of
        None \<Rightarrow> c
      | Some l \<Rightarrow> l)"

definition lower :: "string \<Rightarrow> string" where
  "lower s = map lower_char s"

text \<open>\<open>ILIKE\<close> on a pattern without wildcards: equality up to the case of ASCII letters.\<close>

definition ilike_literal :: "string \<Rightarrow> string \<Rightarrow> bool" where
  "ilike_literal name pattern = (lower name = lower pattern)"

section \<open>Geo queries\<close>

text \<open>
  \<open>ORDER BY k ASC\<close>: ascending, NULL keys last. (PostgreSQL leaves the order of equal keys
  open; the model keeps them in input order.)
\<close>

definition order_by_asc :: "('a \<Rightarrow> real option) \<Rightarrow> 'a list \<Rightarrow> 'a list" where
  "order_by_asc k rows =
     sort_key (\<lambda>r. case k r of Some x \<Rightarrow> x | None \<Rightarrow> 0) (filter (\<lambda>r. k r \<noteq> None) rows)
     @ filter (\<lambda>r. k r = None) rows"






record availability_row =
  a_pharmacy_id :: uuid
  a_pharmacy_name :: string
  a_pharmacy_address :: string
  a_latitude :: "real option"
  a_longitude :: "real option"
  a_distance_km :: "real option"
  a_rating :: real
  a_review_count :: int
  a_price :: "real option"
  a_stock :: "int option"
  a_verified :: "bool option"

text \<open>
  The join condition and the WHERE clause of \<open>get_medicine_availability\<close>. \<open>ILIKE\<close> is
  PostgreSQL's case-insensitive pattern match; it is a parameter \<open>ilike name pattern\<close> of
  the model. The parameter \<open>radius_km\<close> of the function is declared and never read.
\<close>

definition availability_on :: "medicine_row \<Rightarrow> pharmacy_row \<Rightarrow> bool" where
  "availability_on m p = (m_pharmacy_id m = Some (ph_id p))"

definition availability_where ::
  "(string \<Rightarrow> string \<Rightarrow> bool) \<Rightarrow> string \<Rightarrow> medicine_row \<Rightarrow> pharmacy_row \<Rightarrow> bool" where
  "availability_where ilike search_name m p =
     (ilike (m_name m) search_name
      \<and> (case m_stock m of None \<Rightarrow> False | Some s \<Rightarrow> 0 < s)
      \<and> (case ph_latitude p of None \<Rightarrow> False | Some la \<Rightarrow> la \<noteq> 0)
      \<and> ph_verified p = Some True)"

definition availability_select ::
  "real \<Rightarrow> real \<Rightarrow> medicine_row \<Rightarrow> pharmacy_row \<Rightarrow> availability_row" where
  "availability_select user_lat user_lng m p =
     \<lparr> a_pharmacy_id = ph_id p, a_pharmacy_name = ph_name p, a_pharmacy_address = ph_address p,
       a_latitude = ph_latitude p, a_longitude = ph_longitude p,
       a_distance_km = distance_sql user_lat user_lng (ph_latitude p) (ph_longitude p),
       a_rating = (case ph_rating p of None \<Rightarrow> 0 | Some x \<Rightarrow> x),
       a_review_count = (case ph_review_count p of None \<Rightarrow> 0 | Some c \<Rightarrow> c),
       a_price = m_selling_price m, a_stock = m_stock m, a_verified = ph_verified p \<rparr>"

definition availability_join ::
  "(string \<Rightarrow> string \<Rightarrow> bool) \<Rightarrow> db \<Rightarrow> string \<Rightarrow> (medicine_row \<times> pharmacy_row) list" where
  "availability_join ilike d search_name =
     concat (map (\<lambda>m. map (Pair m)
                    (filter (\<lambda>p. availability_on m p \<and> availability_where ilike search_name m p)
                       (pharmacies d)))
               (medicines d))"

definition get_medicine_availability ::
  "(string \<Rightarrow> string \<Rightarrow> bool) \<Rightarrow> db \<Rightarrow> string \<Rightarrow> real \<Rightarrow> real \<Rightarrow> real \<Rightarrow> availability_row list" where
  "get_medicine_availability ilike d search_name user_lat user_lng radius_km =
     order_by_asc a_distance_km
       (map (\<lambda>(m, p). availability_select user_lat user_lng m p)
          (availability_join ilike d search_name))"

section \<open>Committing a sale: \<open>process_sale\<close>\<close>

text \<open>
  A statement that fails raises an error, which aborts the function and rolls back every
  change it made to the tables. The errors are PostgreSQL's conditions.
\<close>

datatype sql_error =
    foreign_key_violation
  | check_violation
  | unique_violation
  | division_by_zero
  | numeric_value_out_of_range
  | sequence_generator_limit_exceeded

text \<open>Columns and casts of type \<open>int\<close> hold 32-bit values; leaving the range is an error.\<close>

definition int4_range :: "int \<Rightarrow> bool" where
  "int4_range x = (- 2147483648 \<le> x \<and> x \<le> 2147483647)"

text \<open>
  \<open>nextval('invoice_seq')\<close> returns the next value and advances the sequence. The
  sequence is a \<open>bigint\<close>; a rollback does not take the advance back.
\<close>

definition nextval_invoice_seq :: "db \<Rightarrow> sql_error + (int \<times> db)" where
  "nextval_invoice_seq d =
     (if 9223372036854775807 < invoice_seq d then Inl sequence_generator_limit_exceeded
      else Inr (invoice_seq d, d\<lparr>invoice_seq := invoice_seq d + 1\<rparr>))"

definition digit_char :: "nat \<Rightarrow> char" where
  "digit_char n = ''0123456789'' ! (n mod 10)"

text \<open>The decimal text of an integer, as \<open>||\<close> writes a \<open>bigint\<close>.\<close>

fun nat_text :: "nat \<Rightarrow> string" where
  "nat_text n = (if n < 10 then [digit_char n] else nat_text (n div 10) @ [digit_char n])"

declare nat_text.simps [simp del]

definition int_text :: "int \<Rightarrow> string" where
  "int_text i = (if i < 0 then CHR ''-'' # nat_text (nat (- i)) else nat_text (nat i))"

definition two_digits :: "nat \<Rightarrow> string" where
  "two_digits n = [digit_char (n div 10), digit_char n]"

definition to_char_YYMMDD :: "timestamp \<Rightarrow> string" where
  "to_char_YYMMDD t = two_digits (ts_year t) @ two_digits (ts_month t) @ two_digits (ts_day t)"

text \<open>
  An element of the JSON array \<open>p_items\<close>: the keys \<open>process_sale\<close> reads, typed as the
  client's \<open>CartItem\<close> has them. The casts of \<open>id\<close> to \<open>uuid\<close> and of the numbers are
  taken to succeed, except that \<open>quantity\<close> must fit an \<open>int\<close>.
\<close>

record cart_item =
  ci_id :: uuid
  ci_name :: string
  ci_batchNumber :: "string option"
  ci_expiryDate :: "string option"
  ci_quantity :: int
  ci_sellingPrice :: real
  ci_total :: real
  ci_gstPercentage :: "real option"

record sale_args =
  p_pharmacy_id :: "uuid option"
  p_customer_name :: string
  p_customer_phone :: string
  p_doctor_name :: "string option"
  p_payment_method :: string
  p_subtotal :: real
  p_discount :: real
  p_taxable_amount :: real
  p_tax_amount :: real
  p_total :: real
  p_items :: "cart_item list"

text \<open>The JSON object the function returns.\<close>

record sale_result =
  sr_id :: uuid
  sr_invoice_number :: string

text \<open>
  \<open>INSERT INTO sales\<close>. \<open>new_id\<close> is the value \<open>gen_random_uuid()\<close> yields for the
  primary key; \<open>pharmacy_id\<close> references \<open>pharmacies(id)\<close>.
\<close>

definition insert_sale :: "timestamp \<Rightarrow> uuid \<Rightarrow> string \<Rightarrow> sale_args \<Rightarrow> db \<Rightarrow> sql_error + db" where
  "insert_sale now new_id v_invoice_number a d =
     (if new_id \<in> set (map s_id (sales d)) then Inl unique_violation
      else if (case p_pharmacy_id a of
                 None \<Rightarrow> False
               | Some pid \<Rightarrow> pid \<notin> set (map ph_id (pharmacies d)))
      then Inl foreign_key_violation
      else Inr (d\<lparr>sales := sales d @
             [\<lparr> s_id = new_id, s_pharmacy_id = p_pharmacy_id a,
                s_invoice_number = v_invoice_number,
                s_customer_name = p_customer_name a, s_customer_phone = p_customer_phone a,
                s_doctor_name = p_doctor_name a, s_payment_method = p_payment_method a,
                s_subtotal = p_subtotal a, s_discount = p_discount a,
                s_taxable_amount = p_taxable_amount a, s_tax_amount = p_tax_amount a,
                s_total = p_total a, s_created_at = now, s_status = ''Completed'' \<rparr>]\<rparr>))"

text \<open>
  \<open>INSERT INTO sale_items\<close> for one element of the cart (the row's own key, a fresh
  uuid, is left out of the model); \<open>medicine_id\<close> references \<open>medicines(id)\<close>.
\<close>

definition insert_sale_item :: "uuid \<Rightarrow> cart_item \<Rightarrow> db \<Rightarrow> sql_error + db" where
  "insert_sale_item v_sale_id item d =
     (if \<not> int4_range (ci_quantity item) then Inl numeric_value_out_of_range
      else if ci_id item \<notin> set (map m_id (medicines d)) then Inl foreign_key_violation
      else Inr (d\<lparr>sale_items := sale_items d @
             [\<lparr> si_sale_id = v_sale_id, si_medicine_id = ci_id item, si_name = ci_name item,
                si_batch_number = ci_batchNumber item,
                si_expiry_date =
                  (case ci_expiryDate item of
                     None \<Rightarrow> None
                   | Some e \<Rightarrow> if e = [] then None else Some e),
                si_quantity = ci_quantity item, si_price = ci_sellingPrice item,
                si_total = ci_total item, si_gst_percentage = ci_gstPercentage item \<rparr>]\<rparr>))"

text \<open>
  \<open>UPDATE medicines SET stock = stock - quantity WHERE id = ...\<close>: no condition on the
  stock that is left. A NULL stock stays NULL.
\<close>

definition decreased :: "int \<Rightarrow> medicine_row \<Rightarrow> medicine_row" where
  "decreased q m = m\<lparr>m_stock := map_option (\<lambda>s. s - q) (m_stock m)\<rparr>"

definition stock_overflows :: "uuid \<Rightarrow> int \<Rightarrow> medicine_row \<Rightarrow> bool" where
  "stock_overflows mid q m =
     (m_id m = mid \<and> (case m_stock m of None \<Rightarrow> False | Some s \<Rightarrow> \<not> int4_range (s - q)))"

definition decrease_stock :: "cart_item \<Rightarrow> db \<Rightarrow> sql_error + db" where
  "decrease_stock item d =
     (if list_ex (stock_overflows (ci_id item) (ci_quantity item)) (medicines d)
      then Inl numeric_value_out_of_range
      else Inr (d\<lparr>medicines :=
             map (\<lambda>m. if m_id m = ci_id item then decreased (ci_quantity item) m else m)
               (medicines d)\<rparr>))"

text \<open>The loop over the cart: it stops at the first statement that fails.\<close>

fun sell_items :: "uuid \<Rightarrow> cart_item list \<Rightarrow> db \<Rightarrow> sql_error + db" where
  "sell_items v_sale_id [] d = Inr d"
| "sell_items v_sale_id (item # items) d =
     (case insert_sale_item v_sale_id item d of
        Inl e \<Rightarrow> Inl e
      | Inr d1 \<Rightarrow>
          (case decrease_stock item d1 of
             Inl e \<Rightarrow> Inl e
           | Inr d2 \<Rightarrow> sell_items v_sale_id items d2))"

text \<open>
  \<open>process_sale\<close>, with \<open>now\<close> the transaction's time. The result is the returned JSON
  object or the error raised, and the database afterwards: on an error the tables are
  as before the call, the sequence stays advanced.
\<close>

definition process_sale ::
  "timestamp \<Rightarrow> uuid \<Rightarrow> sale_args \<Rightarrow> db \<Rightarrow> (sql_error + sale_result) \<times> db" where
  "process_sale now new_id a d =
     (case nextval_invoice_seq d of
        Inl e \<Rightarrow> (Inl e, d)
      | Inr (n, d1) \<Rightarrow>
          (let v_invoice_number = ''INV-'' @ to_char_YYMMDD now @ ''-'' @ int_text n in
           case insert_sale now new_id v_invoice_number a d1 of
             Inl e \<Rightarrow> (Inl e, d\<lparr>invoice_seq := invoice_seq d1\<rparr>)
           | Inr d2 \<Rightarrow>
               (case sell_items new_id (p_items a) d2 of
                  Inl e \<Rightarrow> (Inl e, d\<lparr>invoice_seq := invoice_seq d1\<rparr>)
                | Inr d3 \<Rightarrow>
                    (Inr \<lparr> sr_id = new_id, sr_invoice_number = v_invoice_number \<rparr>, d3))))"

section \<open>Reviews: \<open>submit_review\<close>\<close>

text \<open>
  \<open>INSERT INTO reviews\<close>: the table has the check \<open>rating >= 1 AND rating <= 5\<close> and
  foreign keys to \<open>pharmacies(id)\<close> and \<open>auth.users(id)\<close>. It has no constraint on
  \<open>booking_id\<close>.
\<close>

definition insert_review :: "string \<Rightarrow> uuid \<Rightarrow> uuid \<Rightarrow> int \<Rightarrow> string \<Rightarrow> db \<Rightarrow> sql_error + db" where
  "insert_review booking_id pharmacy_id user_id rating comment d =
     (if \<not> (1 \<le> rating \<and> rating \<le> 5) then Inl check_violation
      else if pharmacy_id \<notin> set (map ph_id (pharmacies d)) then Inl foreign_key_violation
      else if user_id \<notin> set (users d) then Inl foreign_key_violation
      else Inr (d\<lparr>reviews := reviews d @
             [\<lparr> r_booking_id = booking_id, r_pharmacy_id = pharmacy_id, r_user_id = user_id,
                r_rating = rating, r_comment = comment \<rparr>]\<rparr>))"

text \<open>\<open>UPDATE bookings SET is_rated = true WHERE id = p_booking_id\<close>.\<close>

definition mark_rated :: "string \<Rightarrow> db \<Rightarrow> db" where
  "mark_rated booking_id d =
     d\<lparr>bookings :=
         map (\<lambda>b. if b_id b = booking_id then b\<lparr>b_is_rated := Some True\<rparr> else b) (bookings d)\<rparr>"

text \<open>
  The new average. The division is by \<open>v_old_count + 1\<close>; PostgreSQL raises on a zero
  divisor.
\<close>

definition new_rating :: "real \<Rightarrow> int \<Rightarrow> int \<Rightarrow> sql_error + real" where
  "new_rating v_old_rating v_old_count rating =
     (if v_old_count = 0 then Inr (real_of_int rating)
      else if \<not> int4_range (v_old_count + 1) then Inl numeric_value_out_of_range
      else if v_old_count + 1 = 0 then Inl division_by_zero
      else Inr (((v_old_rating * real_of_int v_old_count) + real_of_int rating)
                 / real_of_int (v_old_count + 1)))"

definition update_stats :: "uuid \<Rightarrow> real \<Rightarrow> int \<Rightarrow> db \<Rightarrow> db" where
  "update_stats pharmacy_id v_new_rating v_new_count d =
     d\<lparr>pharmacies :=
         map (\<lambda>p. if ph_id p = pharmacy_id
                  then p\<lparr>ph_rating := Some v_new_rating, ph_review_count := Some v_new_count\<rparr>
                  else p)
           (pharmacies d)\<rparr>"

text \<open>
  \<open>submit_review\<close>; its parameters are named without the prefix \<open>p_\<close>. The function
  returns nothing: the result is the database afterwards, or the error raised (and the
  database is then as before the call). Nothing in the function reads \<open>is_rated\<close> or
  looks for an earlier review of the booking.
\<close>

definition submit_review :: "string \<Rightarrow> uuid \<Rightarrow> uuid \<Rightarrow> int \<Rightarrow> string \<Rightarrow> db \<Rightarrow> sql_error + db" where
  "submit_review booking_id pharmacy_id user_id rating comment d =
     (case insert_review booking_id pharmacy_id user_id rating comment d of
        Inl e \<Rightarrow> Inl e
      | Inr d1 \<Rightarrow>
          (let d2 = mark_rated booking_id d1 in
           case find (\<lambda>p. ph_id p = pharmacy_id) (pharmacies d2) of
             None \<Rightarrow> Inr d2
           | Some p \<Rightarrow>
               (let v_old_rating = (case ph_rating p of None \<Rightarrow> 0 | Some x \<Rightarrow> x);
                    v_old_count = (case ph_review_count p of None \<Rightarrow> 0 | Some c \<Rightarrow> c)
                in case new_rating v_old_rating v_old_count rating of
                     Inl e \<Rightarrow> Inl e
                   | Inr v_new_rating \<Rightarrow>
                       if \<not> int4_range (v_old_count + 1) then Inl numeric_value_out_of_range
                       else Inr (update_stats pharmacy_id v_new_rating (v_old_count + 1) d2))))"

section \<open>The client's availability search: \<open>fetchPharmacies\<close>\<close>



datatype stock_status = In_Stock | Low_Stock | Out_of_Stock



record pharmacy_view =
  v_id :: uuid
  v_name :: string
  v_address :: string
  v_latitude :: real
  v_longitude :: real
  v_distance :: "real option"
  v_rating :: real
  v_reviewCount :: int
  v_price :: "real option"
  v_stock :: "int option"
  v_stockStatus :: stock_status

text \<open>
  \<open>x || 0\<close> on a number that may be \<open>null\<close>. On \<open>rating\<close> and \<open>review_count\<close>,
  which the query never returns as NULL, it changes nothing.
\<close>

definition or_zero :: "real option \<Rightarrow> real" where
  "or_zero x = (case x of None \<Rightarrow> 0 | Some y \<Rightarrow> y)"








section \<open>The catalog: \<open>localMedicines\<close> in \<open>Home\<close>\<close>

text \<open>
  The client's \<open>Medicine\<close>, with the fields the catalog reads; optional fields are
  \<open>option\<close>s.
\<close>

record medicine =
  md_id :: string
  md_name :: string
  md_pharmacyId :: "string option"
  md_sellingPrice :: "real option"
  md_availableStores :: "int option"
  md_stock :: "int option"

text \<open>
  \<open>unique\<close> is an object used as a dictionary from names to medicines; it is an
  association list in insertion order, which is the order of \<open>Object.values\<close> (for
  names that are not written as array indices and are not properties every object
  inherits). \<open>unique[k] = v\<close> is \<open>AList.update k v\<close>: a new key goes to the end, an old
  key keeps its place.
\<close>

definition stores_or_one :: "medicine \<Rightarrow> int" where
  "stores_or_one u =
     (case md_availableStores u of None \<Rightarrow> 1 | Some n \<Rightarrow> if n = 0 then 1 else n)"

definition price_or_zero :: "medicine \<Rightarrow> real" where
  "price_or_zero m = or_zero (md_sellingPrice m)"

text \<open>The body of \<open>filtered.forEach\<close>.\<close>

definition dedupe_step :: "(string \<times> medicine) list \<Rightarrow> medicine \<Rightarrow> (string \<times> medicine) list" where
  "dedupe_step unique m =
     (case map_of unique (md_name m) of
        None \<Rightarrow> AList.update (md_name m) (m\<lparr>md_availableStores := Some 1\<rparr>) unique
      | Some u \<Rightarrow>
          (let counted = u\<lparr>md_availableStores := Some (stores_or_one u + 1)\<rparr> in
           if price_or_zero m < price_or_zero counted
           then AList.update (md_name m)
                  (m\<lparr>md_availableStores := md_availableStores counted\<rparr>) unique
           else AList.update (md_name m) counted unique))"

text \<open>
  The deduplication, on a list of listings already restricted to the pharmacies in
  range: what the specification calls \<open>aggregateCatalog\<close>.
\<close>

definition aggregateCatalog :: "medicine list \<Rightarrow> medicine list" where
  "aggregateCatalog filtered = map snd (foldl dedupe_step [] filtered)"

text \<open>\<open>m.pharmacyId && nearbyIds.has(m.pharmacyId)\<close>: an empty id is falsy.\<close>

definition in_nearby :: "string list \<Rightarrow> medicine \<Rightarrow> bool" where
  "in_nearby nearbyIds m =
     (case md_pharmacyId m of None \<Rightarrow> False | Some pid \<Rightarrow> pid \<noteq> [] \<and> pid \<in> set nearbyIds)"

text \<open>\<open>meds\<close> is the component's property \<open>medicines\<close>.\<close>

definition localMedicines :: "medicine list \<Rightarrow> pharmacy_view list \<Rightarrow> medicine list" where
  "localMedicines meds nearbyPharmacies =
     (if meds \<noteq> [] \<and> nearbyPharmacies = [] then meds
      else if nearbyPharmacies = [] \<or> meds = [] then []
      else aggregateCatalog (filter (in_nearby (map v_id nearbyPharmacies)) meds))"

text \<open>
  The specification's reading of \<open>availableStores\<close>, for comparison: the number of
  distinct pharmacies among the listings of a name.
\<close>

definition spec_availableStores :: "medicine list \<Rightarrow> string \<Rightarrow> nat" where
  "spec_availableStores listings name =
     length (remdups (map md_pharmacyId (filter (\<lambda>m. md_name m = name) listings)))"

text \<open>
  What the dictionary \<open>unique\<close> holds once the listings \<open>xs\<close> have been processed: one
  entry per name that occurs, counting the listings of the name and carrying their
  lowest price.
\<close>

definition agg_inv :: "medicine list \<Rightarrow> (string \<times> medicine) list \<Rightarrow> bool" where
  "agg_inv xs al \<longleftrightarrow>
     distinct (map fst al)
     \<and> (\<forall>k. case map_of al k of
            None \<Rightarrow> filter (\<lambda>m. md_name m = k) xs = []
          | Some u \<Rightarrow> filter (\<lambda>m. md_name m = k) xs \<noteq> [] \<and> md_name u = k
              \<and> md_availableStores u = Some (int (length (filter (\<lambda>m. md_name m = k) xs)))
              \<and> price_or_zero u = Min (price_or_zero ` set (filter (\<lambda>m. md_name m = k) xs)))"

section \<open>Prescription matching\<close>

text \<open>
  Modelled from the spec: the remote procedure \<open>find_pharmacies_for_prescription\<close>, which
  \<open>PrescriptionUpload.findShops\<close> calls with the items \<open>{name, qty}\<close> and the searcher's
  coordinates and whose rows it reads as \<open>pharmacy_id\<close>, \<open>pharmacy_name\<close>,
  \<open>pharmacy_address\<close>, \<open>total_cost\<close> and \<open>distance_km\<close>, is not among the sources. The
  definitions of this section follow sections 4.4 and 9 of the specification: a pharmacy
  qualifies when, for every requested item, it holds a listing of that name (equal up to
  case) with at least the requested quantity; its total cost is the sum over the items of
  unit price times requested quantity at its own prices; the rows are ordered by
  distance. Where a pharmacy holds several such listings of an item, the first is priced.
\<close>

record prescription_item =
  pi_name :: string
  pi_qty :: int

record prescription_match =
  pm_pharmacy_id :: uuid
  pm_pharmacy_name :: string
  pm_pharmacy_address :: string
  pm_total_cost :: real
  pm_distance_km :: "real option"

definition fulfils :: "uuid \<Rightarrow> prescription_item \<Rightarrow> medicine_row \<Rightarrow> bool" where
  "fulfils pid item m =
     (m_pharmacy_id m = Some pid \<and> lower (m_name m) = lower (pi_name item)
      \<and> (case m_stock m of None \<Rightarrow> False | Some s \<Rightarrow> pi_qty item \<le> s))"

definition listing_for :: "db \<Rightarrow> uuid \<Rightarrow> prescription_item \<Rightarrow> medicine_row option" where
  "listing_for d pid item = find (fulfils pid item) (medicines d)"

definition qualifies :: "db \<Rightarrow> prescription_item list \<Rightarrow> pharmacy_row \<Rightarrow> bool" where
  "qualifies d items p = list_all (\<lambda>item. listing_for d (ph_id p) item \<noteq> None) items"

definition item_cost :: "db \<Rightarrow> uuid \<Rightarrow> prescription_item \<Rightarrow> real" where
  "item_cost d pid item =
     (case listing_for d pid item of
        None \<Rightarrow> 0
      | Some m \<Rightarrow> or_zero (m_selling_price m) * real_of_int (pi_qty item))"

definition match_row ::
  "db \<Rightarrow> prescription_item list \<Rightarrow> real \<Rightarrow> real \<Rightarrow> pharmacy_row \<Rightarrow> prescription_match" where
  "match_row d items user_lat user_lng p =
     \<lparr> pm_pharmacy_id = ph_id p, pm_pharmacy_name = ph_name p,
       pm_pharmacy_address = ph_address p,
       pm_total_cost = sum_list (map (item_cost d (ph_id p)) items),
       pm_distance_km = distance_sql user_lat user_lng (ph_latitude p) (ph_longitude p) \<rparr>"

definition matchPrescription ::
  "db \<Rightarrow> prescription_item list \<Rightarrow> real \<Rightarrow> real \<Rightarrow> prescription_match list" where
  "matchPrescription d items user_lat user_lng =
     order_by_asc pm_distance_km
       (map (match_row d items user_lat user_lng) (filter (qualifies d items) (pharmacies d)))"

section \<open>Example data\<close>

text \<open>
  A small database on which the theorems below are instantiated: two pharmacies, one
  verified and located, one unverified, and the listings they hold.
\<close>

definition example_pharmacy :: pharmacy_row where
  "example_pharmacy =
     \<lparr> ph_id = ''p1'', ph_name = ''City Pharmacy'', ph_address = ''1 Main Road'',
       ph_latitude = Some 12, ph_longitude = Some 77, ph_rating = Some 4,
       ph_review_count = Some 2, ph_verified = Some True,
       ph_verification_status = Some ''verified'' \<rparr>"

definition example_unverified :: pharmacy_row where
  "example_unverified =
     \<lparr> ph_id = ''p2'', ph_name = ''New Chemist'', ph_address = ''2 Side Lane'',
       ph_latitude = Some 13, ph_longitude = Some 78, ph_rating = None,
       ph_review_count = None, ph_verified = Some False,
       ph_verification_status = Some ''pending_review'' \<rparr>"

definition example_medicine :: medicine_row where
  "example_medicine =
     \<lparr> m_id = ''m1'', m_pharmacy_id = Some ''p1'', m_name = ''Crocin'',
       m_selling_price = Some 30, m_stock = Some 10 \<rparr>"

definition example_db :: db where
  "example_db =
     \<lparr> pharmacies = [example_pharmacy, example_unverified],
       medicines = [example_medicine,
         \<lparr> m_id = ''m2'', m_pharmacy_id = Some ''p1'', m_name = ''Dolo'',
           m_selling_price = Some 20, m_stock = Some 0 \<rparr>,
         \<lparr> m_id = ''m3'', m_pharmacy_id = Some ''p2'', m_name = ''Crocin'',
           m_selling_price = Some 25, m_stock = Some 40 \<rparr>],
       bookings = [\<lparr> b_id = ''b1'', b_is_rated = Some False \<rparr>],
       sales = [], sale_items = [], reviews = [], users = [''u1''], invoice_seq = 1001 \<rparr>"

definition example_now :: timestamp where
  "example_now = \<lparr> ts_year = 2026, ts_month = 11, ts_day = 2 \<rparr>"

definition example_item :: "int \<Rightarrow> cart_item" where
  "example_item q =
     \<lparr> ci_id = ''m1'', ci_name = ''Crocin'', ci_batchNumber = None, ci_expiryDate = None,
       ci_quantity = q, ci_sellingPrice = 30, ci_total = 30 * real_of_int q,
       ci_gstPercentage = Some 12 \<rparr>"

definition example_sale :: "uuid \<Rightarrow> int \<Rightarrow> sale_args" where
  "example_sale pid q =
     \<lparr> p_pharmacy_id = Some pid, p_customer_name = ''A. Customer'',
       p_customer_phone = ''5550100'', p_doctor_name = None, p_payment_method = ''Cash'',
       p_subtotal = 30 * real_of_int q, p_discount = 0, p_taxable_amount = 0,
       p_tax_amount = 0, p_total = 30 * real_of_int q, p_items = [example_item q] \<rparr>"

text \<open>The example database after three units of its first listing were sold.\<close>

definition example_db_after_sale :: db where
  "example_db_after_sale =
     example_db
       \<lparr> medicines :=
           [example_medicine\<lparr>m_stock := Some 7\<rparr>,
            \<lparr> m_id = ''m2'', m_pharmacy_id = Some ''p1'', m_name = ''Dolo'',
              m_selling_price = Some 20, m_stock = Some 0 \<rparr>,
            \<lparr> m_id = ''m3'', m_pharmacy_id = Some ''p2'', m_name = ''Crocin'',
              m_selling_price = Some 25, m_stock = Some 40 \<rparr>],
         sales :=
           [\<lparr> s_id = ''s1'', s_pharmacy_id = Some ''p1'',
              s_invoice_number = ''INV-261102-1001'', s_customer_name = ''A. Customer'',
              s_customer_phone = ''5550100'', s_doctor_name = None,
              s_payment_method = ''Cash'', s_subtotal = 90, s_discount = 0,
              s_taxable_amount = 0, s_tax_amount = 0, s_total = 90,
              s_created_at = example_now, s_status = ''Completed'' \<rparr>],
         sale_items :=
           [\<lparr> si_sale_id = ''s1'', si_medicine_id = ''m1'', si_name = ''Crocin'',
              si_batch_number = None, si_expiry_date = None, si_quantity = 3,
              si_price = 30, si_total = 90, si_gst_percentage = Some 12 \<rparr>],
         invoice_seq := 1002 \<rparr>"

text \<open>The example database after booking b1 was rated 5, once and twice.\<close>

definition example_review :: review_row where
  "example_review =
     \<lparr> r_booking_id = ''b1'', r_pharmacy_id = ''p1'', r_user_id = ''u1'', r_rating = 5,
       r_comment = ''quick'' \<rparr>"

definition example_db_rated_once :: db where
  "example_db_rated_once =
     example_db
       \<lparr> pharmacies :=
           [example_pharmacy\<lparr>ph_rating := Some (13 / 3), ph_review_count := Some 3\<rparr>,
            example_unverified],
         bookings := [\<lparr> b_id = ''b1'', b_is_rated = Some True \<rparr>],
         reviews := [example_review] \<rparr>"

definition example_db_rated_twice :: db where
  "example_db_rated_twice =
     example_db
       \<lparr> pharmacies :=
           [example_pharmacy\<lparr>ph_rating := Some (9 / 2), ph_review_count := Some 4\<rparr>,
            example_unverified],
         bookings := [\<lparr> b_id = ''b1'', b_is_rated = Some True \<rparr>],
         reviews := [example_review, example_review] \<rparr>"

text \<open>Listings for the catalog: Crocin at three pharmacies, and two batches at one.\<close>

definition crocin :: "string \<Rightarrow> string \<Rightarrow> real \<Rightarrow> medicine" where
  "crocin mid pid price =
     \<lparr> md_id = mid, md_name = ''Crocin'', md_pharmacyId = Some pid,
       md_sellingPrice = Some price, md_availableStores = Some 0, md_stock = Some 10 \<rparr>"

definition example_three_stores :: "medicine list" where
  "example_three_stores = [crocin ''m1'' ''p1'' 30, crocin ''m2'' ''p2'' 25, crocin ''m3'' ''p3'' 28]"

definition example_two_batches :: "medicine list" where
  "example_two_batches = [crocin ''m1'' ''p1'' 30, crocin ''m4'' ''p1'' 25]"

text \<open>
  A database for prescriptions: the first pharmacy stocks both medicines, the second is
  short of Amoxicillin.
\<close>

definition example_rx_db :: db where
  "example_rx_db =
     example_db
       \<lparr> medicines :=
           [\<lparr> m_id = ''m1'', m_pharmacy_id = Some ''p1'', m_name = ''Paracetamol'',
              m_selling_price = Some 2, m_stock = Some 50 \<rparr>,
            \<lparr> m_id = ''m2'', m_pharmacy_id = Some ''p1'', m_name = ''Amoxicillin'',
              m_selling_price = Some 5, m_stock = Some 20 \<rparr>,
            \<lparr> m_id = ''m3'', m_pharmacy_id = Some ''p2'', m_name = ''Paracetamol'',
              m_selling_price = Some 1, m_stock = Some 30 \<rparr>,
            \<lparr> m_id = ''m4'', m_pharmacy_id = Some ''p2'', m_name = ''Amoxicillin'',
              m_selling_price = Some 4, m_stock = Some 3 \<rparr>] \<rparr>"

definition example_prescription :: "prescription_item list" where
  "example_prescription =
     [\<lparr> pi_name = ''Paracetamol'', pi_qty = 10 \<rparr>, \<lparr> pi_name = ''Amoxicillin'', pi_qty = 6 \<rparr>]"

section \<open>Distance is symmetric and vanishes on identical points\<close>






section \<open>What the geo queries return\<close>

lemma set_order_by_asc: "set (order_by_asc k rows) = set rows"
  by (auto simp: order_by_asc_def)

lemma availability_join_iff:
  "(m, p) \<in> set (availability_join ilike d search_name) \<longleftrightarrow>
     m \<in> set (medicines d) \<and> p \<in> set (pharmacies d) \<and> availability_on m p
     \<and> availability_where ilike search_name m p"
  by (auto simp: availability_join_def)

lemma get_medicine_availability_row:
  assumes "r \<in> set (get_medicine_availability ilike d search_name user_lat user_lng radius_km)"
  shows "\<exists>m p. m \<in> set (medicines d) \<and> p \<in> set (pharmacies d) \<and> availability_on m p
           \<and> availability_where ilike search_name m p
           \<and> r = availability_select user_lat user_lng m p"
proof -
  from assms obtain m p where "(m, p) \<in> set (availability_join ilike d search_name)"
    and "r = availability_select user_lat user_lng m p"
    by (auto simp: get_medicine_availability_def set_order_by_asc)
  then show ?thesis unfolding availability_join_iff by blast
qed


lemma lower_Crocin: "lower ''Crocin'' = ''crocin''"
  by (simp add: lower_def lower_char_def)

lemma lower_Dolo: "lower ''Dolo'' = ''dolo''"
  by (simp add: lower_def lower_char_def)

lemma lower_crocin: "lower ''crocin'' = ''crocin''"
  by (simp add: lower_def lower_char_def)

lemma example_availability:
  "get_medicine_availability ilike_literal example_db ''crocin'' user_lat user_lng radius_km
     = [availability_select user_lat user_lng example_medicine example_pharmacy]"
  by (simp add: get_medicine_availability_def order_by_asc_def availability_join_def
        example_db_def example_pharmacy_def example_unverified_def example_medicine_def
        availability_on_def availability_where_def availability_select_def distance_sql_def
        ilike_literal_def lower_Crocin lower_Dolo lower_crocin)


text \<open>
  C9. Every record returned by \<open>get_medicine_availability\<close> carries a stock that is not
  NULL and strictly greater than 0, whatever the query.
\<close>

theorem availability_stock_positive:
  assumes "r \<in> set (get_medicine_availability ilike d search_name user_lat user_lng radius_km)"
  shows "\<exists>s. a_stock r = Some s \<and> 0 < s"
proof -
  obtain m p where w: "availability_where ilike search_name m p"
    and r: "r = availability_select user_lat user_lng m p"
    using get_medicine_availability_row [OF assms] by blast
  from w obtain s where "m_stock m = Some s" "0 < s"
    by (auto simp: availability_where_def split: option.splits)
  with r show ?thesis by (simp add: availability_select_def)
qed

theorem availability_stock_positive_witness:
  "availability_select 0 0 example_medicine example_pharmacy
     \<in> set (get_medicine_availability ilike_literal example_db ''crocin'' 0 0 50)
   \<and> (\<exists>s. a_stock (availability_select 0 0 example_medicine example_pharmacy) = Some s
            \<and> 0 < s)"
proof -
  have h: "availability_select 0 0 example_medicine example_pharmacy
             \<in> set (get_medicine_availability ilike_literal example_db ''crocin'' 0 0 50)"
    by (simp add: example_availability)
  from h availability_stock_positive [OF h] show ?thesis by blast
qed



section \<open>Sales: invoice numbers and stock\<close>

lemma insert_sale_seq:
  "insert_sale now new_id ivn a d = Inr d' \<Longrightarrow> invoice_seq d' = invoice_seq d"
  by (auto simp: insert_sale_def split: if_splits)

lemma insert_sale_item_seq:
  "insert_sale_item sid item d = Inr d' \<Longrightarrow> invoice_seq d' = invoice_seq d"
  by (auto simp: insert_sale_item_def split: if_splits)

lemma decrease_stock_seq:
  "decrease_stock item d = Inr d' \<Longrightarrow> invoice_seq d' = invoice_seq d"
  by (auto simp: decrease_stock_def split: if_splits)

lemma sell_items_seq:
  "sell_items sid items d = Inr d' \<Longrightarrow> invoice_seq d' = invoice_seq d"
proof (induction items arbitrary: d)
  case Nil
  then show ?case by simp
next
  case (Cons item items)
  from Cons.prems obtain d1 d2 where 1: "insert_sale_item sid item d = Inr d1"
    and 2: "decrease_stock item d1 = Inr d2" and 3: "sell_items sid items d2 = Inr d'"
    by (auto split: sum.splits)
  from Cons.IH [OF 3] insert_sale_item_seq [OF 1] decrease_stock_seq [OF 2]
  show ?case by simp
qed

text \<open>
  A sale that succeeds returns the invoice number built from the value of the sequence
  before the call, and leaves the sequence one higher.
\<close>

lemma process_sale_success:
  assumes "process_sale now new_id a d = (Inr r, d')"
  shows "r = \<lparr> sr_id = new_id,
               sr_invoice_number =
                 ''INV-'' @ to_char_YYMMDD now @ ''-'' @ int_text (invoice_seq d) \<rparr>
         \<and> invoice_seq d' = invoice_seq d + 1"
proof -
  from assms obtain n d1 where nv: "nextval_invoice_seq d = Inr (n, d1)"
    by (auto simp: process_sale_def split: sum.splits)
  then have n: "n = invoice_seq d" and d1: "invoice_seq d1 = invoice_seq d + 1"
    by (auto simp: nextval_invoice_seq_def split: if_splits)
  from assms nv obtain d2 where
    ins: "insert_sale now new_id (''INV-'' @ to_char_YYMMDD now @ ''-'' @ int_text n) a d1
            = Inr d2"
    by (auto simp: process_sale_def Let_def split: sum.splits)
  from assms nv ins have sell: "sell_items new_id (p_items a) d2 = Inr d'"
    and r: "r = \<lparr> sr_id = new_id,
                  sr_invoice_number = ''INV-'' @ to_char_YYMMDD now @ ''-'' @ int_text n \<rparr>"
    by (auto simp: process_sale_def Let_def split: sum.splits)
  from sell_items_seq [OF sell] insert_sale_seq [OF ins] d1 r n show ?thesis by simp
qed

text \<open>A failed sale keeps the tables and never moves the sequence back.\<close>

lemma process_sale_failure:
  assumes "process_sale now new_id a d = (Inl e, d')"
  shows "d' = d \<or> d' = d\<lparr>invoice_seq := invoice_seq d + 1\<rparr>"
  using assms
  by (auto simp: process_sale_def nextval_invoice_seq_def Let_def split: sum.splits if_splits)

lemmas example_defs =
  example_db_def example_pharmacy_def example_unverified_def example_medicine_def
  example_now_def example_sale_def example_item_def example_db_after_sale_def

lemmas process_sale_defs =
  process_sale_def nextval_invoice_seq_def insert_sale_def insert_sale_item_def
  decrease_stock_def stock_overflows_def decreased_def int4_range_def Let_def
  to_char_YYMMDD_def two_digits_def digit_char_def int_text_def nat_text.simps

lemma example_first_sale:
  "process_sale example_now ''s1'' (example_sale ''p1'' 3) example_db
     = (Inr \<lparr> sr_id = ''s1'', sr_invoice_number = ''INV-261102-1001'' \<rparr>,
        example_db_after_sale)"
  by (simp add: process_sale_defs example_defs)

lemma example_second_sale:
  "fst (process_sale example_now ''s2'' (example_sale ''p2'' 2) example_db_after_sale)
     = Inr \<lparr> sr_id = ''s2'', sr_invoice_number = ''INV-261102-1002'' \<rparr>"
  by (simp add: process_sale_defs example_defs)

text \<open>
  C5. A successful sale returns \<open>INV-<YYMMDD>-<n>\<close>, with \<open>n\<close> the value of the one
  sequence \<open>invoice_seq\<close> at the call, whatever the pharmacy; of two consecutive
  successful sales the second draws a strictly greater \<open>n\<close>.
\<close>

theorem consecutive_sales_invoice_numbers:
  assumes "process_sale now1 id1 a1 d = (Inr r1, d1)"
    and "process_sale now2 id2 a2 d1 = (Inr r2, d2)"
  shows "sr_invoice_number r1
           = ''INV-'' @ to_char_YYMMDD now1 @ ''-'' @ int_text (invoice_seq d)
       \<and> sr_invoice_number r2
           = ''INV-'' @ to_char_YYMMDD now2 @ ''-'' @ int_text (invoice_seq d1)
       \<and> invoice_seq d < invoice_seq d1"
  using process_sale_success [OF assms(1)] process_sale_success [OF assms(2)] by simp

theorem consecutive_sales_invoice_numbers_witness:
  "process_sale example_now ''s1'' (example_sale ''p1'' 3) example_db
     = (Inr \<lparr> sr_id = ''s1'', sr_invoice_number = ''INV-261102-1001'' \<rparr>,
        example_db_after_sale)
   \<and> process_sale example_now ''s2'' (example_sale ''p2'' 2) example_db_after_sale
     = (Inr \<lparr> sr_id = ''s2'', sr_invoice_number = ''INV-261102-1002'' \<rparr>,
        snd (process_sale example_now ''s2'' (example_sale ''p2'' 2) example_db_after_sale))
   \<and> ''INV-261102-1001''
       = ''INV-'' @ to_char_YYMMDD example_now @ ''-'' @ int_text (invoice_seq example_db)
   \<and> ''INV-261102-1002''
       = ''INV-'' @ to_char_YYMMDD example_now @ ''-''
           @ int_text (invoice_seq example_db_after_sale)
   \<and> invoice_seq example_db < invoice_seq example_db_after_sale"
proof -
  have 1: "process_sale example_now ''s1'' (example_sale ''p1'' 3) example_db
     = (Inr \<lparr> sr_id = ''s1'', sr_invoice_number = ''INV-261102-1001'' \<rparr>,
        example_db_after_sale)"
    by (rule example_first_sale)
  have 2: "process_sale example_now ''s2'' (example_sale ''p2'' 2) example_db_after_sale
     = (Inr \<lparr> sr_id = ''s2'', sr_invoice_number = ''INV-261102-1002'' \<rparr>,
        snd (process_sale example_now ''s2'' (example_sale ''p2'' 2) example_db_after_sale))"
    using example_second_sale by (simp add: prod_eq_iff)
  from 1 2 consecutive_sales_invoice_numbers [OF 1 2] show ?thesis by simp
qed

text \<open>
  C1. \<open>process_sale\<close> has no stock guard: selling 15 units of a listing that holds 10
  succeeds, returns an invoice number and leaves the stock of the listing at -5.
\<close>

theorem process_sale_oversells:
  "map m_stock (medicines example_db) = [Some 10, Some 0, Some 40]
   \<and> fst (process_sale example_now ''s1'' (example_sale ''p1'' 15) example_db)
       = Inr \<lparr> sr_id = ''s1'', sr_invoice_number = ''INV-261102-1001'' \<rparr>
   \<and> map m_stock
        (medicines (snd (process_sale example_now ''s1'' (example_sale ''p1'' 15) example_db)))
       = [Some (- 5), Some 0, Some 40]"
  by (simp add: process_sale_defs example_defs)

section \<open>Reviews: the running average, and rating a booking twice\<close>

lemmas submit_review_defs =
  submit_review_def insert_review_def mark_rated_def new_rating_def update_stats_def
  int4_range_def Let_def

lemma example_first_review:
  "submit_review ''b1'' ''p1'' ''u1'' 5 ''quick'' example_db = Inr example_db_rated_once"
  by (simp add: submit_review_defs example_defs example_review_def example_db_rated_once_def)

lemma example_second_review:
  "submit_review ''b1'' ''p1'' ''u1'' 5 ''quick'' example_db_rated_once
     = Inr example_db_rated_twice"
  by (simp add: submit_review_defs example_defs example_review_def
        example_db_rated_once_def example_db_rated_twice_def)

lemma insert_review_ok:
  assumes "1 \<le> r" "r \<le> 5" "pid \<in> set (map ph_id (pharmacies d))" "uid \<in> set (users d)"
  shows "insert_review bid pid uid r c d
           = Inr (d\<lparr>reviews := reviews d @
                    [\<lparr> r_booking_id = bid, r_pharmacy_id = pid, r_user_id = uid,
                       r_rating = r, r_comment = c \<rparr>]\<rparr>)"
  using assms by (simp add: insert_review_def)

lemma find_Some_mem: "find P xs = Some x \<Longrightarrow> x \<in> set xs \<and> P x"
  by (auto simp: find_Some_iff)

lemma find_map_update:
  "find (\<lambda>p. ph_id p = pid) ps = Some p \<Longrightarrow> ph_id (f p) = pid \<Longrightarrow>
   find (\<lambda>p. ph_id p = pid) (map (\<lambda>q. if ph_id q = pid then f q else q) ps) = Some (f p)"
  by (induction ps) (auto split: if_splits)

text \<open>What a review that passes the constraints does to the database.\<close>

lemma submit_review_effect:
  assumes p: "find (\<lambda>p. ph_id p = pid) (pharmacies d) = Some p"
    and old: "ph_rating p = Some oldAverage" "ph_review_count p = Some oldCount"
    and cnt: "0 \<le> oldCount" "oldCount < 2147483647"
    and r: "1 \<le> r" "r \<le> 5"
    and u: "uid \<in> set (users d)"
  shows "submit_review bid pid uid r c d
           = Inr (update_stats pid
                    ((oldAverage * real_of_int oldCount + real_of_int r)
                       / real_of_int (oldCount + 1))
                    (oldCount + 1)
                    (mark_rated bid (d\<lparr>reviews := reviews d @
                       [\<lparr> r_booking_id = bid, r_pharmacy_id = pid, r_user_id = uid,
                          r_rating = r, r_comment = c \<rparr>]\<rparr>)))"
proof -
  from find_Some_mem [OF p] have mem: "pid \<in> set (map ph_id (pharmacies d))" by force
  have ins: "insert_review bid pid uid r c d
               = Inr (d\<lparr>reviews := reviews d @
                        [\<lparr> r_booking_id = bid, r_pharmacy_id = pid, r_user_id = uid,
                           r_rating = r, r_comment = c \<rparr>]\<rparr>)"
    using r mem u by (rule insert_review_ok)
  have nr: "new_rating oldAverage oldCount r
              = Inr ((oldAverage * real_of_int oldCount + real_of_int r)
                      / real_of_int (oldCount + 1))"
    using cnt by (simp add: new_rating_def int4_range_def)
  have rng: "int4_range (oldCount + 1)" using cnt by (simp add: int4_range_def)
  show ?thesis
    by (simp add: submit_review_def ins Let_def mark_rated_def p old nr rng)
qed

text \<open>
  C4. On a pharmacy with average \<open>oldAverage\<close> and count \<open>oldCount\<close> (a count the column
  can hold and increment), \<open>submit_review\<close> with a rating \<open>r\<close> from 1 to 5 by a known
  user succeeds and leaves the pharmacy with average
  \<open>(oldAverage * oldCount + r) / (oldCount + 1)\<close> and count \<open>oldCount + 1\<close>.
\<close>

theorem submit_review_running_average:
  assumes "find (\<lambda>p. ph_id p = pid) (pharmacies d) = Some p"
    and "ph_rating p = Some oldAverage" and "ph_review_count p = Some oldCount"
    and "0 \<le> oldCount" and "oldCount < 2147483647"
    and "1 \<le> r" and "r \<le> 5"
    and "uid \<in> set (users d)"
  shows "\<exists>d' p'. submit_review bid pid uid r c d = Inr d'
           \<and> find (\<lambda>p. ph_id p = pid) (pharmacies d') = Some p'
           \<and> ph_rating p'
               = Some ((oldAverage * real_of_int oldCount + real_of_int r)
                        / real_of_int (oldCount + 1))
           \<and> ph_review_count p' = Some (oldCount + 1)"
proof -
  let ?avg = "(oldAverage * real_of_int oldCount + real_of_int r) / real_of_int (oldCount + 1)"
  let ?f = "\<lambda>p. p\<lparr>ph_rating := Some ?avg, ph_review_count := Some (oldCount + 1)\<rparr>"
  let ?d' = "update_stats pid ?avg (oldCount + 1)
               (mark_rated bid (d\<lparr>reviews := reviews d @
                  [\<lparr> r_booking_id = bid, r_pharmacy_id = pid, r_user_id = uid,
                     r_rating = r, r_comment = c \<rparr>]\<rparr>))"
  have id: "ph_id (?f p) = pid" using find_Some_mem [OF assms(1)] by simp
  have 1: "submit_review bid pid uid r c d = Inr ?d'"
    by (rule submit_review_effect [OF assms])
  have 2: "pharmacies ?d' = map (\<lambda>q. if ph_id q = pid then ?f q else q) (pharmacies d)"
    by (simp add: update_stats_def mark_rated_def)
  have 3: "find (\<lambda>p. ph_id p = pid) (pharmacies ?d') = Some (?f p)"
    unfolding 2 using assms(1) id by (rule find_map_update)
  have 4: "ph_rating (?f p) = Some ?avg" by simp
  have 5: "ph_review_count (?f p) = Some (oldCount + 1)" by simp
  from 1 3 4 5 show ?thesis by blast
qed

theorem submit_review_running_average_witness:
  "find (\<lambda>p. ph_id p = ''p1'') (pharmacies example_db) = Some example_pharmacy
   \<and> ph_rating example_pharmacy = Some 4 \<and> ph_review_count example_pharmacy = Some 2
   \<and> ''u1'' \<in> set (users example_db)
   \<and> (\<exists>d' p'. submit_review ''b1'' ''p1'' ''u1'' 5 ''quick'' example_db = Inr d'
         \<and> find (\<lambda>p. ph_id p = ''p1'') (pharmacies d') = Some p'
         \<and> ph_rating p' = Some (13 / 3) \<and> ph_review_count p' = Some 3)"
proof -
  have f: "find (\<lambda>p. ph_id p = ''p1'') (pharmacies example_db) = Some example_pharmacy"
    by (simp add: example_defs)
  have a: "ph_rating example_pharmacy = Some 4" by (simp add: example_defs)
  have n: "ph_review_count example_pharmacy = Some 2" by (simp add: example_defs)
  have u: "''u1'' \<in> set (users example_db)" by (simp add: example_defs)
  from submit_review_running_average
         [OF f a n, of 5 "''u1''" "''b1''" "''quick''", simplified, OF u]
  show ?thesis using f a n u by simp
qed

text \<open>
  C2. \<open>submit_review\<close> accepts a second review of a booking it has already marked as
  rated: both calls succeed, the table holds two reviews of the booking, and the
  pharmacy's count and average are updated twice (2 reviews at 4.0, then 3 at 13/3, then
  4 at 4.5).
\<close>

theorem submit_review_twice_accepted:
  "map ph_review_count (pharmacies example_db) = [Some 2, None]
   \<and> submit_review ''b1'' ''p1'' ''u1'' 5 ''quick'' example_db = Inr example_db_rated_once
   \<and> map b_is_rated (bookings example_db_rated_once) = [Some True]
   \<and> submit_review ''b1'' ''p1'' ''u1'' 5 ''quick'' example_db_rated_once
       = Inr example_db_rated_twice
   \<and> length (filter (\<lambda>r. r_booking_id r = ''b1'') (reviews example_db_rated_twice)) = 2
   \<and> map ph_review_count (pharmacies example_db_rated_twice) = [Some 4, None]
   \<and> map ph_rating (pharmacies example_db_rated_twice) = [Some (9 / 2), None]"
proof (intro conjI)
  show "map ph_review_count (pharmacies example_db) = [Some 2, None]"
    by (simp add: example_defs)
  show "submit_review ''b1'' ''p1'' ''u1'' 5 ''quick'' example_db = Inr example_db_rated_once"
    by (rule example_first_review)
  show "map b_is_rated (bookings example_db_rated_once) = [Some True]"
    by (simp add: example_db_rated_once_def)
  show "submit_review ''b1'' ''p1'' ''u1'' 5 ''quick'' example_db_rated_once
          = Inr example_db_rated_twice"
    by (rule example_second_review)
  show "length (filter (\<lambda>r. r_booking_id r = ''b1'') (reviews example_db_rated_twice)) = 2"
    by (simp add: example_db_rated_twice_def example_review_def)
  show "map ph_review_count (pharmacies example_db_rated_twice) = [Some 4, None]"
    by (simp add: example_db_rated_twice_def example_defs)
  show "map ph_rating (pharmacies example_db_rated_twice) = [Some (9 / 2), None]"
    by (simp add: example_db_rated_twice_def example_defs)
qed

section \<open>The availability search without a location\<close>








section \<open>Prescription matching is all-or-nothing\<close>

lemma listing_for_Some:
  "listing_for d pid item = Some m \<Longrightarrow> m \<in> set (medicines d) \<and> fulfils pid item m"
  unfolding listing_for_def by (rule find_Some_mem)

lemma listing_for_None_iff:
  "listing_for d pid item \<noteq> None \<longleftrightarrow> (\<exists>m \<in> set (medicines d). fulfils pid item m)"
  by (auto simp: listing_for_def find_None_iff)

lemma qualifies_iff:
  "qualifies d items p \<longleftrightarrow>
     (\<forall>item \<in> set items. \<exists>m \<in> set (medicines d). fulfils (ph_id p) item m)"
  by (simp only: qualifies_def list_all_iff listing_for_None_iff)

lemma set_matchPrescription:
  "set (matchPrescription d items user_lat user_lng)
     = match_row d items user_lat user_lng ` {p \<in> set (pharmacies d). qualifies d items p}"
  by (simp add: matchPrescription_def set_order_by_asc)

lemma pm_pharmacy_id_match_row [simp]:
  "pm_pharmacy_id (match_row d items user_lat user_lng p) = ph_id p"
  by (simp add: match_row_def)

lemma pm_total_cost_match_row [simp]:
  "pm_total_cost (match_row d items user_lat user_lng p)
     = sum_list (map (item_cost d (ph_id p)) items)"
  by (simp add: match_row_def)

lemma qualified_cost:
  assumes "qualifies d items p"
  shows "\<exists>pick. (\<forall>item \<in> set items.
                   pick item \<in> set (medicines d) \<and> fulfils (ph_id p) item (pick item))
           \<and> sum_list (map (item_cost d (ph_id p)) items)
               = (\<Sum>item\<leftarrow>items. or_zero (m_selling_price (pick item)) * real_of_int (pi_qty item))"
proof -
  let ?pick = "\<lambda>item. the (listing_for d (ph_id p) item)"
  have 1: "listing_for d (ph_id p) item = Some (?pick item)" if "item \<in> set items" for item
    using assms that by (auto simp: qualifies_def list_all_iff)
  have 2: "?pick item \<in> set (medicines d) \<and> fulfils (ph_id p) item (?pick item)"
    if "item \<in> set items" for item
    using listing_for_Some [OF 1 [OF that]] .
  have 3: "item_cost d (ph_id p) item
             = or_zero (m_selling_price (?pick item)) * real_of_int (pi_qty item)"
    if "item \<in> set items" for item
    using 1 [OF that] by (cases "listing_for d (ph_id p) item") (simp_all add: item_cost_def)
  have eq: "sum_list (map (item_cost d (ph_id p)) items)
              = (\<Sum>item\<leftarrow>items. or_zero (m_selling_price (?pick item)) * real_of_int (pi_qty item))"
    by (rule arg_cong [where f = sum_list], rule map_cong, rule refl, rule 3)
  show ?thesis
  proof (intro exI [of _ ?pick] conjI ballI)
    fix item assume "item \<in> set items"
    then show "?pick item \<in> set (medicines d)" "fulfils (ph_id p) item (?pick item)"
      using 2 by blast+
  next
    show "sum_list (map (item_cost d (ph_id p)) items)
            = (\<Sum>item\<leftarrow>items. or_zero (m_selling_price (?pick item)) * real_of_int (pi_qty item))"
      by (rule eq)
  qed
qed

text \<open>
  C7. \<open>matchPrescription\<close> returns a row for a pharmacy exactly when the pharmacy
  exists and, for every requested item, holds a listing of that name with at least the
  requested quantity; the total cost of each row is the sum over the items of unit price
  times requested quantity, each price that of a listing of that pharmacy which fulfils
  the item.
\<close>

theorem matchPrescription_all_or_nothing:
  "((\<exists>r \<in> set (matchPrescription d items user_lat user_lng). pm_pharmacy_id r = pid) \<longleftrightarrow>
      (pid \<in> set (map ph_id (pharmacies d))
       \<and> (\<forall>item \<in> set items. \<exists>m \<in> set (medicines d). fulfils pid item m)))
   \<and> (\<forall>r \<in> set (matchPrescription d items user_lat user_lng).
        \<exists>pick. (\<forall>item \<in> set items.
                   pick item \<in> set (medicines d) \<and> fulfils (pm_pharmacy_id r) item (pick item))
          \<and> pm_total_cost r
              = (\<Sum>item\<leftarrow>items. or_zero (m_selling_price (pick item)) * real_of_int (pi_qty item)))"
proof (intro conjI ballI)
  show "(\<exists>r \<in> set (matchPrescription d items user_lat user_lng). pm_pharmacy_id r = pid) \<longleftrightarrow>
      (pid \<in> set (map ph_id (pharmacies d))
       \<and> (\<forall>item \<in> set items. \<exists>m \<in> set (medicines d). fulfils pid item m))"
    unfolding set_matchPrescription by (auto simp: qualifies_iff)
next
  fix r assume "r \<in> set (matchPrescription d items user_lat user_lng)"
  then obtain p where p: "qualifies d items p" and r: "r = match_row d items user_lat user_lng p"
    unfolding set_matchPrescription by blast
  from qualified_cost [OF p] r
  show "\<exists>pick. (\<forall>item \<in> set items.
                   pick item \<in> set (medicines d) \<and> fulfils (pm_pharmacy_id r) item (pick item))
          \<and> pm_total_cost r
              = (\<Sum>item\<leftarrow>items. or_zero (m_selling_price (pick item)) * real_of_int (pi_qty item))"
    by simp
qed

lemma lower_paracetamol: "lower ''Paracetamol'' = ''paracetamol''"
  by (simp add: lower_def lower_char_def)

lemma lower_amoxicillin: "lower ''Amoxicillin'' = ''amoxicillin''"
  by (simp add: lower_def lower_char_def)

lemma example_match:
  "matchPrescription example_rx_db example_prescription 12 77
     = [match_row example_rx_db example_prescription 12 77 example_pharmacy]"
  by (simp add: matchPrescription_def order_by_asc_def qualifies_def listing_for_def fulfils_def
     example_rx_db_def example_prescription_def example_defs lower_paracetamol lower_amoxicillin
     match_row_def distance_sql_def)

lemma example_match_cost:
  "pm_total_cost (match_row example_rx_db example_prescription 12 77 example_pharmacy) = 50"
  by (simp add: match_row_def item_cost_def listing_for_def fulfils_def or_zero_def
     example_rx_db_def example_prescription_def example_defs lower_paracetamol lower_amoxicillin)


theorem matchPrescription_all_or_nothing_witness:
  "''p1'' \<in> set (map ph_id (pharmacies example_rx_db))
   \<and> fulfils ''p1'' \<lparr> pi_name = ''Paracetamol'', pi_qty = 10 \<rparr> (medicines example_rx_db ! 0)
   \<and> fulfils ''p1'' \<lparr> pi_name = ''Amoxicillin'', pi_qty = 6 \<rparr> (medicines example_rx_db ! 1)
   \<and> (\<exists>r \<in> set (matchPrescription example_rx_db example_prescription 12 77).
         pm_pharmacy_id r = ''p1'')
   \<and> match_row example_rx_db example_prescription 12 77 example_pharmacy
        \<in> set (matchPrescription example_rx_db example_prescription 12 77)
   \<and> pm_total_cost (match_row example_rx_db example_prescription 12 77 example_pharmacy)
        = 10 * 2 + 6 * 5
   \<and> (\<exists>pick. pick \<lparr> pi_name = ''Paracetamol'', pi_qty = 10 \<rparr> \<in> set (medicines example_rx_db)
         \<and> pick \<lparr> pi_name = ''Amoxicillin'', pi_qty = 6 \<rparr> \<in> set (medicines example_rx_db)
         \<and> pm_total_cost (match_row example_rx_db example_prescription 12 77 example_pharmacy)
             = or_zero (m_selling_price (pick \<lparr> pi_name = ''Paracetamol'', pi_qty = 10 \<rparr>)) * 10
               + or_zero (m_selling_price (pick \<lparr> pi_name = ''Amoxicillin'', pi_qty = 6 \<rparr>)) * 6)"
proof -
  note inst = matchPrescription_all_or_nothing
    [where d = example_rx_db and items = example_prescription and user_lat = 12
       and user_lng = 77 and pid = "''p1''"]
  have p: "''p1'' \<in> set (map ph_id (pharmacies example_rx_db))"
    by (simp add: example_rx_db_def example_defs)
  have f1: "fulfils ''p1'' \<lparr> pi_name = ''Paracetamol'', pi_qty = 10 \<rparr>
              (medicines example_rx_db ! 0)"
    by (simp add: fulfils_def example_rx_db_def)
  have f2: "fulfils ''p1'' \<lparr> pi_name = ''Amoxicillin'', pi_qty = 6 \<rparr>
              (medicines example_rx_db ! 1)"
    by (simp add: fulfils_def example_rx_db_def)
  have m: "medicines example_rx_db ! 0 \<in> set (medicines example_rx_db)"
    "medicines example_rx_db ! 1 \<in> set (medicines example_rx_db)"
    by (simp_all add: example_rx_db_def)
  have rhs: "\<forall>item \<in> set example_prescription.
               \<exists>m \<in> set (medicines example_rx_db). fulfils ''p1'' item m"
    using f1 f2 m by (auto simp: example_prescription_def)
  from inst p rhs
  have lhs: "\<exists>r \<in> set (matchPrescription example_rx_db example_prescription 12 77).
               pm_pharmacy_id r = ''p1''"
    by blast
  have mem: "match_row example_rx_db example_prescription 12 77 example_pharmacy
               \<in> set (matchPrescription example_rx_db example_prescription 12 77)"
    by (simp add: example_match)
  from inst mem obtain pick where
    "\<forall>item \<in> set example_prescription. pick item \<in> set (medicines example_rx_db)
        \<and> fulfils (pm_pharmacy_id
              (match_row example_rx_db example_prescription 12 77 example_pharmacy)) item (pick item)"
    and "pm_total_cost (match_row example_rx_db example_prescription 12 77 example_pharmacy)
           = (\<Sum>item\<leftarrow>example_prescription.
                or_zero (m_selling_price (pick item)) * real_of_int (pi_qty item))"
    by blast
  then have pick: "\<exists>pick. pick \<lparr> pi_name = ''Paracetamol'', pi_qty = 10 \<rparr> \<in> set (medicines example_rx_db)
         \<and> pick \<lparr> pi_name = ''Amoxicillin'', pi_qty = 6 \<rparr> \<in> set (medicines example_rx_db)
         \<and> pm_total_cost (match_row example_rx_db example_prescription 12 77 example_pharmacy)
             = or_zero (m_selling_price (pick \<lparr> pi_name = ''Paracetamol'', pi_qty = 10 \<rparr>)) * 10
               + or_zero (m_selling_price (pick \<lparr> pi_name = ''Amoxicillin'', pi_qty = 6 \<rparr>)) * 6"
    by (intro exI [of _ pick]) (simp add: example_prescription_def)
  from p f1 f2 lhs mem pick example_match_cost show ?thesis by simp
qed

section \<open>The catalog: one entry per name, lowest price, number of listings\<close>

lemma price_or_zero_update [simp]:
  "price_or_zero (m\<lparr>md_availableStores := c\<rparr>) = price_or_zero m"
  by (simp add: price_or_zero_def)

lemma map_of_dedupe_step:
  "map_of (dedupe_step al m) =
     (map_of al)(md_name m \<mapsto>
        (case map_of al (md_name m) of
           None \<Rightarrow> m\<lparr>md_availableStores := Some 1\<rparr>
         | Some u \<Rightarrow>
             if price_or_zero m < price_or_zero u
             then m\<lparr>md_availableStores := Some (stores_or_one u + 1)\<rparr>
             else u\<lparr>md_availableStores := Some (stores_or_one u + 1)\<rparr>))"
  by (auto simp: dedupe_step_def Let_def update_conv' split: option.splits)

lemma distinct_dedupe_step:
  "distinct (map fst al) \<Longrightarrow> distinct (map fst (dedupe_step al m))"
  by (auto simp: dedupe_step_def Let_def distinct_update split: option.splits)

lemma agg_inv_step:
  assumes "agg_inv xs al"
  shows "agg_inv (xs @ [m]) (dedupe_step al m)"
  unfolding agg_inv_def
proof (intro conjI allI)
  show "distinct (map fst (dedupe_step al m))"
    using assms by (simp add: agg_inv_def distinct_dedupe_step)
next
  fix k
  let ?g = "filter (\<lambda>m. md_name m = k) xs"
  from assms have inv: "case map_of al k of
            None \<Rightarrow> ?g = []
          | Some u \<Rightarrow> ?g \<noteq> [] \<and> md_name u = k
              \<and> md_availableStores u = Some (int (length ?g))
              \<and> price_or_zero u = Min (price_or_zero ` set ?g)"
    by (simp add: agg_inv_def)
  show "case map_of (dedupe_step al m) k of
            None \<Rightarrow> filter (\<lambda>m. md_name m = k) (xs @ [m]) = []
          | Some u \<Rightarrow> filter (\<lambda>m. md_name m = k) (xs @ [m]) \<noteq> [] \<and> md_name u = k
              \<and> md_availableStores u = Some (int (length (filter (\<lambda>m. md_name m = k) (xs @ [m]))))
              \<and> price_or_zero u = Min (price_or_zero ` set (filter (\<lambda>m. md_name m = k) (xs @ [m])))"
  proof (cases "md_name m = k")
    case False
    with inv show ?thesis by (auto simp: map_of_dedupe_step split: option.splits)
  next
    case True
    show ?thesis
    proof (cases "map_of al k")
      case None
      with inv True show ?thesis by (auto simp: map_of_dedupe_step split: option.splits)
    next
      case (Some u)
      with inv have g: "?g \<noteq> []" and n: "md_name u = k"
        and c: "md_availableStores u = Some (int (length ?g))"
        and pr: "price_or_zero u = Min (price_or_zero ` set ?g)" by simp_all
      from g have "0 < length ?g" by simp
      with c have s: "stores_or_one u = int (length ?g)" by (simp add: stores_or_one_def)
      have fin: "finite (price_or_zero ` set ?g)" "price_or_zero ` set ?g \<noteq> {}"
        using g by (simp_all del: set_filter)
      have mn: "Min (insert (price_or_zero m) (price_or_zero ` set ?g))
                 = min (price_or_zero m) (price_or_zero u)"
        using fin pr by (simp add: Min_insert)
      show ?thesis
        using True Some n s mn by (simp add: map_of_dedupe_step min_def)
    qed
  qed
qed

lemma agg_inv_foldl: "agg_inv xs (foldl dedupe_step [] xs)"
proof (induction xs rule: rev_induct)
  case Nil
  show ?case by (simp add: agg_inv_def)
next
  case (snoc m xs)
  then show ?case by (simp add: agg_inv_step)
qed

lemma agg_inv_at:
  assumes "agg_inv xs al"
  shows "case map_of al k of
            None \<Rightarrow> filter (\<lambda>m. md_name m = k) xs = []
          | Some u \<Rightarrow> filter (\<lambda>m. md_name m = k) xs \<noteq> [] \<and> md_name u = k
              \<and> md_availableStores u = Some (int (length (filter (\<lambda>m. md_name m = k) xs)))
              \<and> price_or_zero u = Min (price_or_zero ` set (filter (\<lambda>m. md_name m = k) xs))"
proof -
  from assms have "\<forall>k. case map_of al k of
            None \<Rightarrow> filter (\<lambda>m. md_name m = k) xs = []
          | Some u \<Rightarrow> filter (\<lambda>m. md_name m = k) xs \<noteq> [] \<and> md_name u = k
              \<and> md_availableStores u = Some (int (length (filter (\<lambda>m. md_name m = k) xs)))
              \<and> price_or_zero u = Min (price_or_zero ` set (filter (\<lambda>m. md_name m = k) xs))"
    by (simp add: agg_inv_def)
  then show ?thesis by (rule spec)
qed

lemma agg_inv_Some:
  assumes "agg_inv xs al" and "map_of al k = Some u"
  shows "md_name u = k"
    and "md_availableStores u = Some (int (length (filter (\<lambda>m. md_name m = k) xs)))"
    and "price_or_zero u = Min (price_or_zero ` set (filter (\<lambda>m. md_name m = k) xs))"
  using agg_inv_at [OF assms(1), of k] assms(2) by simp_all

lemma agg_inv_None_iff:
  assumes "agg_inv xs al"
  shows "map_of al k = None \<longleftrightarrow> filter (\<lambda>m. md_name m = k) xs = []"
  using agg_inv_at [OF assms, of k] by (cases "map_of al k") simp_all

lemma foldl_dedupe_entry:
  assumes "(k, e) \<in> set (foldl dedupe_step [] xs)"
  shows "map_of (foldl dedupe_step [] xs) k = Some e \<and> md_name e = k"
proof -
  let ?al = "foldl dedupe_step [] xs"
  have inv: "agg_inv xs ?al" by (rule agg_inv_foldl)
  then have d: "distinct (map fst ?al)" by (simp add: agg_inv_def)
  with assms have m: "map_of ?al k = Some e" by simp
  with agg_inv_Some(1) [OF inv m] show ?thesis by simp
qed

lemma aggregateCatalog_entry:
  assumes "e \<in> set (aggregateCatalog xs)"
  shows "map_of (foldl dedupe_step [] xs) (md_name e) = Some e"
proof -
  from assms obtain k where "(k, e) \<in> set (foldl dedupe_step [] xs)"
    by (auto simp: aggregateCatalog_def)
  from foldl_dedupe_entry [OF this] show ?thesis by simp
qed

lemma aggregateCatalog_names:
  "map md_name (aggregateCatalog xs) = map fst (foldl dedupe_step [] xs)"
proof -
  have "md_name (snd p) = fst p" if "p \<in> set (foldl dedupe_step [] xs)" for p
    using foldl_dedupe_entry [of "fst p" "snd p" xs] that by simp
  then show ?thesis by (simp add: aggregateCatalog_def)
qed

text \<open>
  The catalog has exactly one entry per medicine name of its input; the entry has the
  lowest price of the listings of that name (a missing price read as 0, as the
  comparison does), and its \<open>availableStores\<close> is the number of those listings.
\<close>

theorem aggregateCatalog_groups:
  "distinct (map md_name (aggregateCatalog xs))
   \<and> set (map md_name (aggregateCatalog xs)) = set (map md_name xs)
   \<and> (\<forall>e \<in> set (aggregateCatalog xs).
         price_or_zero e = Min (price_or_zero ` {m \<in> set xs. md_name m = md_name e})
         \<and> md_availableStores e
             = Some (int (length (filter (\<lambda>m. md_name m = md_name e) xs))))"
proof (intro conjI ballI)
  let ?al = "foldl dedupe_step [] xs"
  have inv: "agg_inv xs ?al" by (rule agg_inv_foldl)
  show "distinct (map md_name (aggregateCatalog xs))"
    using inv by (simp add: aggregateCatalog_names agg_inv_def)
  have "k \<in> set (map fst ?al) \<longleftrightarrow> k \<in> set (map md_name xs)" for k
    using agg_inv_None_iff [OF inv, of k]
    unfolding map_of_eq_None_iff filter_empty_conv by auto
  then show "set (map md_name (aggregateCatalog xs)) = set (map md_name xs)"
    unfolding aggregateCatalog_names by blast
next
  fix e assume e: "e \<in> set (aggregateCatalog xs)"
  have inv: "agg_inv xs (foldl dedupe_step [] xs)" by (rule agg_inv_foldl)
  note s = agg_inv_Some [OF inv aggregateCatalog_entry [OF e]]
  from s(3) show "price_or_zero e = Min (price_or_zero ` {m \<in> set xs. md_name m = md_name e})"
    by simp
  from s(2)
  show "md_availableStores e = Some (int (length (filter (\<lambda>m. md_name m = md_name e) xs)))" .
qed

lemmas catalog_defs =
  aggregateCatalog_def dedupe_step_def stores_or_one_def price_or_zero_def or_zero_def Let_def
  crocin_def

text \<open>
  Three listings of Crocin priced 30, 25 and 28 at three pharmacies give one entry, the
  listing priced 25, with \<open>availableStores = 3\<close>.
\<close>

theorem example_three_stores_catalog:
  "aggregateCatalog example_three_stores
     = [(crocin ''m2'' ''p2'' 25)\<lparr>md_availableStores := Some 3\<rparr>]"
  by (simp add: catalog_defs example_three_stores_def)

theorem aggregateCatalog_groups_witness:
  "(crocin ''m2'' ''p2'' 25)\<lparr>md_availableStores := Some 3\<rparr>
     \<in> set (aggregateCatalog example_three_stores)
   \<and> price_or_zero ((crocin ''m2'' ''p2'' 25)\<lparr>md_availableStores := Some 3\<rparr>)
       = Min (price_or_zero ` {m \<in> set example_three_stores.
                md_name m = md_name ((crocin ''m2'' ''p2'' 25)\<lparr>md_availableStores := Some 3\<rparr>)})
   \<and> md_availableStores ((crocin ''m2'' ''p2'' 25)\<lparr>md_availableStores := Some 3\<rparr>)
       = Some (int (length (filter
           (\<lambda>m. md_name m = md_name ((crocin ''m2'' ''p2'' 25)\<lparr>md_availableStores := Some 3\<rparr>))
           example_three_stores)))"
proof -
  have e: "(crocin ''m2'' ''p2'' 25)\<lparr>md_availableStores := Some 3\<rparr>
             \<in> set (aggregateCatalog example_three_stores)"
    by (simp add: example_three_stores_catalog)
  note b = aggregateCatalog_groups [of example_three_stores, THEN conjunct2, THEN conjunct2]
  from e bspec [OF b e] show ?thesis by (rule conjI)
qed

text \<open>
  C6. \<open>availableStores\<close> counts listings, not pharmacies: two listings of Crocin held by
  the same pharmacy (two batches) give an entry with \<open>availableStores = 2\<close>, while one
  pharmacy carries the name.
\<close>

theorem aggregateCatalog_counts_listings:
  "map md_availableStores (aggregateCatalog example_two_batches) = [Some 2]
   \<and> map md_sellingPrice (aggregateCatalog example_two_batches) = [Some 25]
   \<and> spec_availableStores example_two_batches ''Crocin'' = 1"
  by (simp add: catalog_defs example_two_batches_def spec_availableStores_def)

end
